theory Spec2Isabelle
  imports Main "HOL-Library.Word"
begin

unbundle bit_operations_syntax

section \<open>Frames: \<open>yalc/CANMsg.hpp\<close>\<close>

text \<open>
  Fixed-width C++ integers are words. A signed type and its unsigned sibling
  share the word type; the signed value of a word is \<open>sint\<close>, the unsigned one
  \<open>unat\<close>. Where the source computes on a signed operand (an arithmetic right
  shift, a sign-extending promotion to \<open>int\<close>) the model uses the signed
  operation (\<open>signed_drop_bit\<close>, \<open>scast\<close>).
\<close>

type_synonym uint8_t = "8 word"
type_synonym int8_t = "8 word"
type_synonym uint16_t = "16 word"
type_synonym int16_t = "16 word"
type_synonym uint32_t = "32 word"
type_synonym int32_t = "32 word"

text \<open>
  The members of \<open>class CANMsg\<close>. The array \<open>uint8_t data_[8]\<close> is a list;
  every frame a constructor builds holds exactly eight octets (\<open>wf_CANMsg\<close>).
\<close>

record CANMsg =
  COBId_m :: uint32_t
  flag_m :: bool
  length_m :: uint8_t
  data_m :: "uint8_t list"

definition wf_CANMsg :: "CANMsg \<Rightarrow> bool" where
  "wf_CANMsg m = (length (data_m m) = 8)"

text \<open>
  \<open>std::copy(first, last, dest)\<close> with the source range given as the list of
  octets it spans: the octets overwrite the front of the destination and the
  rest of the destination stays.
\<close>

definition std_copy :: "uint8_t list \<Rightarrow> uint8_t list \<Rightarrow> uint8_t list" where
  "std_copy src dst = src @ drop (length src) dst"

text \<open>\<open>CANMsg(const uint32_t COBId)\<close> and the default constructor \<open>CANMsg()\<close>.\<close>

definition CANMsg_COBId :: "uint32_t \<Rightarrow> CANMsg" where
  "CANMsg_COBId COBId =
     \<lparr>COBId_m = COBId, flag_m = False, length_m = 0, data_m = [0, 0, 0, 0, 0, 0, 0, 0]\<rparr>"

definition CANMsg_default :: CANMsg where
  "CANMsg_default = CANMsg_COBId 0"

text \<open>
  \<open>CANMsg(COBId, length, const uint8_t* data)\<close>. The pointer is modelled by the
  list of octets readable behind it (\<open>nullptr\<close> is the empty list). Copying
  more than eight octets, or more than the buffer holds, is undefined
  behaviour in the source: \<open>None\<close>.
\<close>

definition CANMsg_ptr :: "uint32_t \<Rightarrow> uint8_t \<Rightarrow> uint8_t list \<Rightarrow> CANMsg option" where
  "CANMsg_ptr COBId len d =
     (if unat len \<le> 8 \<and> unat len \<le> length d
      then Some \<lparr>COBId_m = COBId, flag_m = False, length_m = len,
                 data_m = std_copy (take (unat len) d) [0, 0, 0, 0, 0, 0, 0, 0]\<rparr>
      else None)"

text \<open>
  \<open>CANMsg(COBId, length, std::initializer_list<uint8_t> data)\<close>: the whole list
  is copied, whatever \<open>length\<close> says.
\<close>

definition CANMsg_list :: "uint32_t \<Rightarrow> uint8_t \<Rightarrow> uint8_t list \<Rightarrow> CANMsg option" where
  "CANMsg_list COBId len d =
     (if length d \<le> 8
      then Some \<lparr>COBId_m = COBId, flag_m = False, length_m = len,
                 data_m = std_copy d [0, 0, 0, 0, 0, 0, 0, 0]\<rparr>
      else None)"

definition getCOBId :: "CANMsg \<Rightarrow> uint32_t" where
  "getCOBId m = COBId_m m"

definition getFlag :: "CANMsg \<Rightarrow> bool" where
  "getFlag m = flag_m m"

definition getData :: "CANMsg \<Rightarrow> uint8_t list" where
  "getData m = data_m m"

definition getLength :: "CANMsg \<Rightarrow> uint8_t" where
  "getLength m = length_m m"

definition setFlag :: "bool \<Rightarrow> CANMsg \<Rightarrow> CANMsg" where
  "setFlag flag m = m\<lparr>flag_m := flag\<rparr>"

text \<open>
  \<open>setData(length, data)\<close>: the length is stored and \<open>length\<close> octets are copied
  to the front of \<open>data_\<close>. Nothing else is written.
\<close>

definition setData :: "uint8_t \<Rightarrow> uint8_t list \<Rightarrow> CANMsg \<Rightarrow> CANMsg option" where
  "setData len d m =
     (if unat len \<le> 8 \<and> unat len \<le> length d
      then Some (m\<lparr>length_m := len, data_m := std_copy (take (unat len) d) (data_m m)\<rparr>)
      else None)"

text \<open>
  \<open>static_cast<uint8_t>(x & 0xFF)\<close> on an operand of type \<open>int\<close> or
  \<open>uint32_t\<close>.
\<close>

definition octet :: "32 word \<Rightarrow> uint8_t" where
  "octet x = ucast (x AND 0xFF)"

text \<open>
  The six overloads of \<open>write\<close>. The index \<open>k + pos\<close> is computed in \<open>int\<close>, so
  it does not wrap; an index past the array is undefined behaviour: \<open>None\<close>.
  The stores happen in the order of the source, highest octet first.
\<close>

definition write_int32 :: "int32_t \<Rightarrow> uint8_t \<Rightarrow> CANMsg \<Rightarrow> CANMsg option" where
  "write_int32 v pos m =
     (if 3 + unat pos < 8
      then Some (m\<lparr>data_m := (data_m m)
             [3 + unat pos := octet (signed_drop_bit 24 v),
              2 + unat pos := octet (signed_drop_bit 16 v),
              1 + unat pos := octet (signed_drop_bit 8 v),
              0 + unat pos := octet (signed_drop_bit 0 v)]\<rparr>)
      else None)"

definition write_uint32 :: "uint32_t \<Rightarrow> uint8_t \<Rightarrow> CANMsg \<Rightarrow> CANMsg option" where
  "write_uint32 v pos m =
     (if 3 + unat pos < 8
      then Some (m\<lparr>data_m := (data_m m)
             [3 + unat pos := octet (drop_bit 24 v),
              2 + unat pos := octet (drop_bit 16 v),
              1 + unat pos := octet (drop_bit 8 v),
              0 + unat pos := octet (drop_bit 0 v)]\<rparr>)
      else None)"

text \<open>
  The 16-bit operands are promoted to \<open>int\<close> before the shift: \<open>int16_t\<close> by
  sign extension, \<open>uint16_t\<close> by zero extension; the shift is then the one of
  \<open>int\<close>.
\<close>

definition write_int16 :: "int16_t \<Rightarrow> uint8_t \<Rightarrow> CANMsg \<Rightarrow> CANMsg option" where
  "write_int16 v pos m =
     (if 1 + unat pos < 8
      then Some (m\<lparr>data_m := (data_m m)
             [1 + unat pos := octet (signed_drop_bit 8 (scast v)),
              0 + unat pos := octet (signed_drop_bit 0 (scast v))]\<rparr>)
      else None)"

definition write_uint16 :: "uint16_t \<Rightarrow> uint8_t \<Rightarrow> CANMsg \<Rightarrow> CANMsg option" where
  "write_uint16 v pos m =
     (if 1 + unat pos < 8
      then Some (m\<lparr>data_m := (data_m m)
             [1 + unat pos := octet (signed_drop_bit 8 (ucast v)),
              0 + unat pos := octet (signed_drop_bit 0 (ucast v))]\<rparr>)
      else None)"

text \<open>\<open>static_cast<uint8_t>\<close> of an \<open>int8_t\<close> keeps the bits.\<close>

definition write_int8 :: "int8_t \<Rightarrow> uint8_t \<Rightarrow> CANMsg \<Rightarrow> CANMsg option" where
  "write_int8 v pos m =
     (if 0 + unat pos < 8
      then Some (m\<lparr>data_m := (data_m m)[0 + unat pos := v]\<rparr>)
      else None)"

definition write_uint8 :: "uint8_t \<Rightarrow> uint8_t \<Rightarrow> CANMsg \<Rightarrow> CANMsg option" where
  "write_uint8 v pos m =
     (if 0 + unat pos < 8
      then Some (m\<lparr>data_m := (data_m m)[0 + unat pos := v]\<rparr>)
      else None)"

text \<open>
  The six reads. An octet cast to a wider type keeps its value (0 to 255);
  a left shift that reaches the sign bit wraps in two's complement.
\<close>

definition readint32 :: "uint8_t \<Rightarrow> CANMsg \<Rightarrow> int32_t option" where
  "readint32 pos m =
     (if 3 + unat pos < 8
      then Some (push_bit 24 (ucast (data_m m ! (3 + unat pos)))
                 OR push_bit 16 (ucast (data_m m ! (2 + unat pos)))
                 OR push_bit 8 (ucast (data_m m ! (1 + unat pos)))
                 OR ucast (data_m m ! (0 + unat pos)))
      else None)"

definition readuint32 :: "uint8_t \<Rightarrow> CANMsg \<Rightarrow> uint32_t option" where
  "readuint32 pos m =
     (if 3 + unat pos < 8
      then Some (push_bit 24 (ucast (data_m m ! (3 + unat pos)))
                 OR push_bit 16 (ucast (data_m m ! (2 + unat pos)))
                 OR push_bit 8 (ucast (data_m m ! (1 + unat pos)))
                 OR ucast (data_m m ! (0 + unat pos)))
      else None)"

text \<open>
  The 16-bit reads cast each octet to the 16-bit type, compute in \<open>int\<close> after
  promotion, and the \<open>return\<close> converts the \<open>int\<close> back to 16 bits.
\<close>

definition readint16 :: "uint8_t \<Rightarrow> CANMsg \<Rightarrow> int16_t option" where
  "readint16 pos m =
     (if 1 + unat pos < 8
      then Some (ucast
             (push_bit 8 (scast (ucast (data_m m ! (1 + unat pos)) :: int16_t) :: 32 word)
              OR scast (ucast (data_m m ! (0 + unat pos)) :: int16_t)))
      else None)"

definition readuint16 :: "uint8_t \<Rightarrow> CANMsg \<Rightarrow> uint16_t option" where
  "readuint16 pos m =
     (if 1 + unat pos < 8
      then Some (ucast
             (push_bit 8 (ucast (ucast (data_m m ! (1 + unat pos)) :: uint16_t) :: 32 word)
              OR ucast (ucast (data_m m ! (0 + unat pos)) :: uint16_t)))
      else None)"

definition readint8 :: "uint8_t \<Rightarrow> CANMsg \<Rightarrow> int8_t option" where
  "readint8 pos m = (if 0 + unat pos < 8 then Some (data_m m ! (0 + unat pos)) else None)"

definition readuint8 :: "uint8_t \<Rightarrow> CANMsg \<Rightarrow> uint8_t option" where
  "readuint8 pos m = (if 0 + unat pos < 8 then Some (data_m m ! (0 + unat pos)) else None)"

text \<open>
  The little-endian octets of a value, least significant first: the layout a
  write is expected to leave at \<open>data_[pos]\<close>, \<open>data_[pos + 1]\<close>, ...
\<close>

primrec le_octets :: "nat \<Rightarrow> 'a::len word \<Rightarrow> uint8_t list" where
  "le_octets 0 v = []"
| "le_octets (Suc n) v = ucast v # le_octets n (drop_bit 8 v)"

text \<open>The octets a frame holds at indices \<open>pos\<close> to \<open>pos + n - 1\<close>.\<close>

definition octets_at :: "nat \<Rightarrow> nat \<Rightarrow> CANMsg \<Rightarrow> uint8_t list" where
  "octets_at pos n m = take n (drop pos (data_m m))"

section \<open>Devices: \<open>tcan/Device.hpp\<close>, \<open>tcan/DeviceOptions.hpp\<close>\<close>

text \<open>
  Member names of the source end in an underscore, which a constant name
  cannot; it is written \<open>_m\<close> here (\<open>_d\<close> for the members of \<open>Device\<close>, two
  of which would otherwise share a name with members of \<open>Bus\<close>).
  \<open>unsigned int\<close> is 32 bits wide.
\<close>

record DeviceOptions =
  nodeId :: uint32_t
  name :: string
  maxDeviceTimeoutCounter :: "32 word"

text \<open>\<open>DeviceOptions(node_id, node_name)\<close>: the limit defaults to 20.\<close>

definition DeviceOptions_ctor :: "uint32_t \<Rightarrow> string \<Rightarrow> DeviceOptions" where
  "DeviceOptions_ctor node_id node_name =
     \<lparr>nodeId = node_id, name = node_name, maxDeviceTimeoutCounter = 20\<rparr>"

text \<open>
  \<open>bus_\<close> is a pointer to the bus the device is attached to: an address, or
  \<open>None\<close> for \<open>nullptr\<close>.
\<close>

record Device =
  options_d :: DeviceOptions
  deviceTimeoutCounter_d :: "32 word"
  bus_d :: "nat option"

definition Device_ctor :: "DeviceOptions \<Rightarrow> Device" where
  "Device_ctor options = \<lparr>options_d = options, deviceTimeoutCounter_d = 0, bus_d = None\<rparr>"

definition getNodeId :: "Device \<Rightarrow> uint32_t" where
  "getNodeId d = nodeId (options_d d)"

definition getName :: "Device \<Rightarrow> string" where
  "getName d = name (options_d d)"

text \<open>
  \<open>return !(max != 0 && (deviceTimeoutCounter_++ > max));\<close>
  The \<open>&&\<close> short-circuits, so the counter is touched only when the limit is
  not 0; the post-increment compares the value the counter held before the
  increment; the increment of an \<open>unsigned int\<close> wraps.
\<close>

definition checkDeviceTimeout :: "Device \<Rightarrow> bool \<times> Device" where
  "checkDeviceTimeout d =
     (if maxDeviceTimeoutCounter (options_d d) \<noteq> 0
      then (let old = deviceTimeoutCounter_d d;
                d' = d\<lparr>deviceTimeoutCounter_d := old + 1\<rparr>
            in (\<not> (old > maxDeviceTimeoutCounter (options_d d)), d'))
      else (True, d))"

text \<open>The default \<open>virtual bool sanityCheck()\<close>.\<close>

definition sanityCheck :: "Device \<Rightarrow> bool \<times> Device" where
  "sanityCheck d = checkDeviceTimeout d"

text \<open>
  \<open>n\<close> sanity checks in a row with no frame from the device in between (a
  frame would reset the counter): the results of the checks, in order, and
  the device after the last one.
\<close>

primrec sanityChecks :: "nat \<Rightarrow> Device \<Rightarrow> bool list \<times> Device" where
  "sanityChecks 0 d = ([], d)"
| "sanityChecks (Suc n) d =
     (let (r, d1) = sanityCheck d; (rs, d2) = sanityChecks n d1 in (r # rs, d2))"

section \<open>The generic bus runtime: \<open>tcan/Bus.hpp\<close>\<close>

text \<open>
  Modelled from the spec: \<open>tcan/BusOptions.hpp\<close> is not among the sources.
  The record holds the options \<open>Bus.hpp\<close> reads, named as it reads them and
  typed by their use there (the spec lists them as the configuration of a
  bus: name, mode, activate on reception, start passive, queue cap, sanity
  check interval in milliseconds, three thread priorities).
\<close>

record BusOptions =
  name_m :: string
  asynchronous_m :: bool
  startPassive_m :: bool
  activateBusOnReception_m :: bool
  maxQueueSize_m :: nat
  sanityCheckInterval_m :: nat
  priorityReceiveThread_m :: int
  priorityTransmitThread_m :: int
  prioritySanityCheckThread_m :: int

datatype thread_id = ReceiveThread | TransmitThread | SanityCheckThread

datatype sched_policy = SCHED_FIFO

text \<open>
  What a bus does that is visible outside its own members, in the order it
  does it: threads started and joined, \<open>pthread_setschedparam\<close> calls with the
  thread whose handle is passed, log lines (the format string of the source
  up to the bus name), notifications of the two condition variables, calls
  of the driver's \<open>writeData\<close>, and acquisitions and releases of the queue
  mutex.
\<close>

datatype 'm effect =
    ThreadStart thread_id
  | ThreadJoin thread_id
  | SetSchedParam thread_id sched_policy int
  | Warn string string
  | NotifyTransmit
  | NotifyOutputQueueEmpty
  | WriteData 'm
  | MutexLock
  | MutexUnlock

text \<open>
  What the bus calls and does not define: the pure virtual driver functions,
  each given by the value it returns, and \<open>pthread_setschedparam\<close>, \<open>True\<close>
  where it returns 0.
\<close>

record 'm driver =
  initializeInterface :: bool
  readData :: bool
  writeData :: "'m \<Rightarrow> bool"
  pthread_setschedparam :: "thread_id \<Rightarrow> int \<Rightarrow> bool"

text \<open>
  The members of \<open>Bus<Msg>\<close>. The mutex is \<open>True\<close> while held; the queue has
  its front at the head of the list; a thread member is \<open>True\<close> while it is
  joinable. \<open>effects\<close> is the log described above.
\<close>

record 'm Bus =
  isMissingDeviceOrHasError_m :: bool
  allDevicesActive_m :: bool
  isPassive_m :: bool
  options_m :: BusOptions
  outgointMsgsMutex_m :: bool
  outgoingMsgs_m :: "'m list"
  receiveThread_m :: bool
  transmitThread_m :: bool
  sanityCheckThread_m :: bool
  running_m :: bool
  effects :: "'m effect list"

definition Bus_ctor :: "BusOptions \<Rightarrow> 'm Bus" where
  "Bus_ctor options =
     \<lparr>isMissingDeviceOrHasError_m = False, allDevicesActive_m = False,
      isPassive_m = startPassive_m options, options_m = options,
      outgointMsgsMutex_m = False, outgoingMsgs_m = [],
      receiveThread_m = False, transmitThread_m = False, sanityCheckThread_m = False,
      running_m = False, effects = []\<rparr>"

definition emit :: "'m effect \<Rightarrow> ('m, 'z) Bus_scheme \<Rightarrow> ('m, 'z) Bus_scheme" where
  "emit e b = b\<lparr>effects := effects b @ [e]\<rparr>"

text \<open>The effects of a call: what the log gained between two states.\<close>

definition new_effects :: "('m, 'z) Bus_scheme \<Rightarrow> ('m, 'z) Bus_scheme \<Rightarrow> 'm effect list" where
  "new_effects b b' = drop (length (effects b)) (effects b')"

text \<open>The frames handed to \<open>writeData\<close>, in order.\<close>

fun writeData_calls :: "'m effect list \<Rightarrow> 'm list" where
  "writeData_calls [] = []"
| "writeData_calls (WriteData m # es) = m # writeData_calls es"
| "writeData_calls (e # es) = writeData_calls es"

text \<open>
  Acquiring the queue mutex (\<open>std::lock_guard\<close>, \<open>std::unique_lock\<close>,
  \<open>lock.lock()\<close>): while another holder has it the caller blocks, and the call
  has no result in that state (\<open>None\<close>).
\<close>

definition mutex_lock :: "('m, 'z) Bus_scheme \<Rightarrow> ('m, 'z) Bus_scheme option" where
  "mutex_lock b =
     (if outgointMsgsMutex_m b then None
      else Some (emit MutexLock (b\<lparr>outgointMsgsMutex_m := True\<rparr>)))"

definition mutex_unlock :: "('m, 'z) Bus_scheme \<Rightarrow> ('m, 'z) Bus_scheme" where
  "mutex_unlock b = emit MutexUnlock (b\<lparr>outgointMsgsMutex_m := False\<rparr>)"

text \<open>
  \<open>std::condition_variable::wait(lock)\<close>: the mutex is released, the thread
  sleeps while the other threads run, and it wakes holding the mutex again.
  \<open>others\<close> is what the other threads did to the bus in between.
\<close>

definition cond_wait ::
  "(('m, 'z) Bus_scheme \<Rightarrow> ('m, 'z) Bus_scheme) \<Rightarrow> ('m, 'z) Bus_scheme \<Rightarrow> ('m, 'z) Bus_scheme" where
  "cond_wait others b =
     emit MutexLock ((others (mutex_unlock b))\<lparr>outgointMsgsMutex_m := True\<rparr>)"

text \<open>\<open>std::thread(&Bus::...Worker, this)\<close> assigned to the thread member.\<close>

definition start_thread :: "thread_id \<Rightarrow> ('m, 'z) Bus_scheme \<Rightarrow> ('m, 'z) Bus_scheme" where
  "start_thread t b =
     emit (ThreadStart t)
       (case t of
          ReceiveThread \<Rightarrow> b\<lparr>receiveThread_m := True\<rparr>
        | TransmitThread \<Rightarrow> b\<lparr>transmitThread_m := True\<rparr>
        | SanityCheckThread \<Rightarrow> b\<lparr>sanityCheckThread_m := True\<rparr>)"

text \<open>
  \<open>if (pthread_setschedparam(handle, SCHED_FIFO, &sched) != 0) MELO_WARN(...)\<close>
  with \<open>sched.sched_priority = prio\<close>; \<open>t\<close> is the thread whose
  \<open>native_handle()\<close> is passed.
\<close>

definition set_priority ::
  "'m driver \<Rightarrow> thread_id \<Rightarrow> int \<Rightarrow> string \<Rightarrow> ('m, 'z) Bus_scheme \<Rightarrow> ('m, 'z) Bus_scheme" where
  "set_priority drv t prio msg b =
     (let b1 = emit (SetSchedParam t SCHED_FIFO prio) b
      in if \<not> pthread_setschedparam drv t prio
         then emit (Warn msg (name_m (options_m b1))) b1
         else b1)"

text \<open>
  \<open>initBus()\<close>. All three \<open>pthread_setschedparam\<close> calls of the source pass
  \<open>receiveThread_.native_handle()\<close>.
\<close>

definition initBus :: "'m driver \<Rightarrow> ('m, 'z) Bus_scheme \<Rightarrow> bool \<times> ('m, 'z) Bus_scheme" where
  "initBus drv b =
     (if \<not> initializeInterface drv then (False, b)
      else
        (let b1 = b\<lparr>running_m := True\<rparr>
         in if asynchronous_m (options_m b1)
            then
              (let b2 = start_thread ReceiveThread b1;
                   b3 = start_thread TransmitThread b2;
                   b4 = set_priority drv ReceiveThread (priorityReceiveThread_m (options_m b3))
                          ''Failed to set receive thread priority for bus %s'' b3;
                   b5 = set_priority drv ReceiveThread (priorityTransmitThread_m (options_m b4))
                          ''Failed to set transmit thread priority for bus %s'' b4;
                   b6 = (if sanityCheckInterval_m (options_m b5) > 0
                         then
                           (let b51 = start_thread SanityCheckThread b5
                            in set_priority drv ReceiveThread
                                 (prioritySanityCheckThread_m (options_m b51))
                                 ''Failed to set receive thread priority for bus %s'' b51)
                         else b5)
               in (True, b6))
            else (True, b1)))"

text \<open>
  \<open>checkOutgoingMsgsSize()\<close>: a throttled warning when the queue is at or past
  the cap, and nothing else.
\<close>

definition checkOutgoingMsgsSize :: "('m, 'z) Bus_scheme \<Rightarrow> ('m, 'z) Bus_scheme" where
  "checkOutgoingMsgsSize b =
     (if length (outgoingMsgs_m b) \<ge> maxQueueSize_m (options_m b)
      then emit (Warn ''Exceeding max queue size on bus %s! Dropping message!''
                   (name_m (options_m b))) b
      else b)"

definition sendMessageWithoutLock :: "'m \<Rightarrow> ('m, 'z) Bus_scheme \<Rightarrow> ('m, 'z) Bus_scheme" where
  "sendMessageWithoutLock msg b =
     (let b1 = checkOutgoingMsgsSize b;
          b2 = b1\<lparr>outgoingMsgs_m := outgoingMsgs_m b1 @ [msg]\<rparr>
      in emit NotifyTransmit b2)"

definition emplaceMessageWithoutLock :: "'m \<Rightarrow> ('m, 'z) Bus_scheme \<Rightarrow> ('m, 'z) Bus_scheme" where
  "emplaceMessageWithoutLock msg b =
     (let b1 = checkOutgoingMsgsSize b;
          b2 = b1\<lparr>outgoingMsgs_m := outgoingMsgs_m b1 @ [msg]\<rparr>
      in emit NotifyTransmit b2)"

text \<open>
  \<open>sendMessage\<close> and \<open>emplaceMessage\<close>: the guard takes the mutex, the
  \<open>WithoutLock\<close> sibling runs, the guard's destructor releases the mutex.
\<close>

definition sendMessage :: "'m \<Rightarrow> ('m, 'z) Bus_scheme \<Rightarrow> ('m, 'z) Bus_scheme option" where
  "sendMessage msg b =
     map_option (\<lambda>b1. mutex_unlock (sendMessageWithoutLock msg b1)) (mutex_lock b)"

definition emplaceMessage :: "'m \<Rightarrow> ('m, 'z) Bus_scheme \<Rightarrow> ('m, 'z) Bus_scheme option" where
  "emplaceMessage msg b =
     map_option (\<lambda>b1. mutex_unlock (emplaceMessageWithoutLock msg b1)) (mutex_lock b)"

definition activate :: "('m, 'z) Bus_scheme \<Rightarrow> ('m, 'z) Bus_scheme" where
  "activate b = b\<lparr>isPassive_m := False\<rparr>"

definition passivate :: "('m, 'z) Bus_scheme \<Rightarrow> ('m, 'z) Bus_scheme" where
  "passivate b = b\<lparr>isPassive_m := True\<rparr>"

definition isPassive :: "('m, 'z) Bus_scheme \<Rightarrow> bool" where
  "isPassive b = isPassive_m b"

definition isAsynchronous :: "('m, 'z) Bus_scheme \<Rightarrow> bool" where
  "isAsynchronous b = asynchronous_m (options_m b)"

text \<open>
  \<open>isPassive_ ? true : writeData(msg)\<close>: the driver is called only on an
  active bus.
\<close>

definition write_unless_passive ::
  "'m driver \<Rightarrow> 'm \<Rightarrow> ('m, 'z) Bus_scheme \<Rightarrow> bool \<times> ('m, 'z) Bus_scheme" where
  "write_unless_passive drv msg b =
     (if isPassive_m b then (True, b) else (writeData drv msg, emit (WriteData msg) b))"

text \<open>
  \<open>writeMessage(bool& writeError)\<close>, called with the mutex held by the caller.
  The result is the returned value, the value left in \<open>writeError\<close>, and the bus.
\<close>

definition writeMessage ::
  "'m driver \<Rightarrow> ('m, 'z) Bus_scheme \<Rightarrow> bool \<times> bool \<times> ('m, 'z) Bus_scheme" where
  "writeMessage drv b =
     (if length (outgoingMsgs_m b) \<noteq> 0
      then
        (let (writeSuccess, b1) = write_unless_passive drv (hd (outgoingMsgs_m b)) b
         in if writeSuccess
            then (True, False, b1\<lparr>outgoingMsgs_m := tl (outgoingMsgs_m b1)\<rparr>)
            else (False, True, b1))
      else (False, False, b))"

definition readMessage :: "'m driver \<Rightarrow> ('m, 'z) Bus_scheme \<Rightarrow> bool \<times> ('m, 'z) Bus_scheme" where
  "readMessage drv b =
     (if readData drv
      then (True,
            if isPassive_m b \<and> activateBusOnReception_m (options_m b)
            then emit (Warn ''Auto-activated bus %s'' (name_m (options_m b)))
                   (b\<lparr>isPassive_m := False\<rparr>)
            else b)
      else (False, b))"

definition join_thread :: "thread_id \<Rightarrow> ('m, 'z) Bus_scheme \<Rightarrow> ('m, 'z) Bus_scheme" where
  "join_thread t b =
     (case t of
        ReceiveThread \<Rightarrow>
          if receiveThread_m b then emit (ThreadJoin t) (b\<lparr>receiveThread_m := False\<rparr>) else b
      | TransmitThread \<Rightarrow>
          if transmitThread_m b then emit (ThreadJoin t) (b\<lparr>transmitThread_m := False\<rparr>) else b
      | SanityCheckThread \<Rightarrow>
          if sanityCheckThread_m b then emit (ThreadJoin t) (b\<lparr>sanityCheckThread_m := False\<rparr>)
          else b)"

definition stopThreads :: "bool \<Rightarrow> ('m, 'z) Bus_scheme \<Rightarrow> ('m, 'z) Bus_scheme" where
  "stopThreads wait b =
     (let b1 = emit NotifyOutputQueueEmpty (emit NotifyTransmit (b\<lparr>running_m := False\<rparr>))
      in if wait
         then join_thread SanityCheckThread
                (join_thread TransmitThread (join_thread ReceiveThread b1))
         else b1)"



text \<open>
  The loop at the head of \<open>processOutputQueue\<close>:
  \<open>while (outgoingMsgs_.size() == 0 && running_) { notify_all; wait(lock); }\<close>
\<close>

fun wait_for_message ::
  "(('m, 'z) Bus_scheme \<Rightarrow> ('m, 'z) Bus_scheme) list \<Rightarrow> ('m, 'z) Bus_scheme
   \<Rightarrow> ('m, 'z) Bus_scheme option" where
  "wait_for_message [] b =
     (if length (outgoingMsgs_m b) = 0 \<and> running_m b then None else Some b)"
| "wait_for_message (f # fs) b =
     (if length (outgoingMsgs_m b) = 0 \<and> running_m b
      then wait_for_message fs (cond_wait f (emit NotifyOutputQueueEmpty b))
      else Some b)"

text \<open>
  \<open>processOutputQueue()\<close>, the body of the transmit thread's loop. After the
  wait the queue is not empty unless the bus stopped, so \<open>front()\<close> is read
  from a queue that has one.
\<close>

definition processOutputQueue ::
  "'m driver \<Rightarrow> (('m, 'z) Bus_scheme \<Rightarrow> ('m, 'z) Bus_scheme) list \<Rightarrow> ('m, 'z) Bus_scheme
   \<Rightarrow> (bool \<times> ('m, 'z) Bus_scheme) option" where
  "processOutputQueue drv others b =
     Option.bind (mutex_lock b) (\<lambda>b1.
     Option.bind (wait_for_message others b1) (\<lambda>b2.
       if \<not> running_m b2 then Some (True, mutex_unlock b2)
       else
         (let msg = hd (outgoingMsgs_m b2);
              b3 = mutex_unlock b2;
              (writeSuccess, b4) = write_unless_passive drv msg b3
          in if writeSuccess
             then Option.bind (mutex_lock b4) (\<lambda>b5.
                    Some (writeSuccess,
                          mutex_unlock (b5\<lparr>outgoingMsgs_m := tl (outgoingMsgs_m b5)\<rparr>)))
             else Some (writeSuccess, b4))))"

section \<open>CAN buses: \<open>tcan_can/CanBus.hpp\<close>\<close>

text \<open>
  The members \<open>identifier\<close> and \<open>mask\<close> carry the suffix \<open>_m\<close> as well: the
  first name is a keyword here, the second a constant of the word library.
\<close>

record CanFrameIdentifier =
  identifier_m :: uint32_t
  mask_m :: uint32_t

text \<open>\<open>explicit CanFrameIdentifier(uint32_t id, uint32_t msk = 0xffffffffu)\<close>\<close>

definition CanFrameIdentifier_ctor :: "uint32_t \<Rightarrow> uint32_t \<Rightarrow> CanFrameIdentifier" where
  "CanFrameIdentifier_ctor ident msk = \<lparr>identifier_m = ident, mask_m = msk\<rparr>"

definition CanFrameIdentifier_id :: "uint32_t \<Rightarrow> CanFrameIdentifier" where
  "CanFrameIdentifier_id ident = CanFrameIdentifier_ctor ident 0xffffffff"

text \<open>\<open>CanFrameIdentifier::operator==\<close>\<close>

definition CanFrameIdentifier_eq :: "CanFrameIdentifier \<Rightarrow> CanFrameIdentifier \<Rightarrow> bool" where
  "CanFrameIdentifier_eq lhs rhs =
     (identifier_m lhs = identifier_m rhs \<and> mask_m lhs = mask_m rhs)"

text \<open>
  Modelled from the spec: \<open>tcan_can/CanMsg.hpp\<close> is not among the sources.
  The spec's frame (identifier, length, eight data octets, unset octets zero)
  is what \<open>yalc/CANMsg.hpp\<close> declares, and its constructor
  \<open>(COBId, length, const uint8_t* data)\<close> has the signature \<open>sendSync\<close> calls;
  \<open>CanMsg\<close> is taken to be that class.
\<close>

type_synonym CanMsg = CANMsg

text \<open>
  A slot of the dispatch map: the \<open>CanDevice*\<close> (an address, \<open>None\<close> for
  \<open>nullptr\<close>) and the bound callback.
\<close>

type_synonym CallbackPtr = "CanMsg \<Rightarrow> bool"

type_synonym DispatchSlot = "nat option \<times> CallbackPtr"

text \<open>
  \<open>std::unordered_map<CanFrameIdentifier, ..., CanFrameIdentifierHasher>\<close> as
  the list of its entries. The hasher combines both members, so keys that
  \<open>operator==\<close> makes equal hash alike and a lookup finds a key exactly when an
  entry's key equals it.
\<close>

type_synonym CanFrameIdentifierToFunctionMap = "(CanFrameIdentifier \<times> DispatchSlot) list"

record CanBus = "CanMsg Bus" +
  devices_m :: "nat list"
  canFrameIdentifierToFunctionMap_m :: CanFrameIdentifierToFunctionMap
  unmappedMessageCallbackFunction_m :: "CallbackPtr option"

text \<open>Whether the map holds an entry whose key equals \<open>k\<close>.\<close>

definition contains_key :: "CanFrameIdentifier \<Rightarrow> CanFrameIdentifierToFunctionMap \<Rightarrow> bool" where
  "contains_key k m = list_ex (\<lambda>e. CanFrameIdentifier_eq (fst e) k) m"

text \<open>The slot stored under a key equal to \<open>k\<close>, if any.\<close>

fun find_slot :: "CanFrameIdentifier \<Rightarrow> CanFrameIdentifierToFunctionMap \<Rightarrow> DispatchSlot option" where
  "find_slot k [] = None"
| "find_slot k (e # es) = (if CanFrameIdentifier_eq (fst e) k then Some (snd e) else find_slot k es)"

text \<open>
  \<open>unordered_map::emplace(key, value).second\<close>: nothing is inserted when an
  equal key is present.
\<close>

definition emplace ::
  "CanFrameIdentifier \<Rightarrow> DispatchSlot \<Rightarrow> CanFrameIdentifierToFunctionMap
   \<Rightarrow> CanFrameIdentifierToFunctionMap \<times> bool" where
  "emplace k v m = (if contains_key k m then (m, False) else (m @ [(k, v)], True))"

text \<open>
  The four overloads of \<open>addCanMessage\<close>: by frame identifier or by matcher,
  for a callback holder that is a \<open>CanDevice\<close> or is not. \<open>fp\<close> is the callback
  already bound to its holder.
\<close>

definition addCanMessage_id :: "uint32_t \<Rightarrow> CallbackPtr \<Rightarrow> CanBus \<Rightarrow> bool \<times> CanBus" where
  "addCanMessage_id canFrameId fp bus =
     (let (m, inserted) = emplace (CanFrameIdentifier_id canFrameId) (None, fp)
                            (canFrameIdentifierToFunctionMap_m bus)
      in (inserted, bus\<lparr>canFrameIdentifierToFunctionMap_m := m\<rparr>))"

definition addCanMessage_id_device ::
  "uint32_t \<Rightarrow> nat \<Rightarrow> CallbackPtr \<Rightarrow> CanBus \<Rightarrow> bool \<times> CanBus" where
  "addCanMessage_id_device canFrameId device fp bus =
     (let (m, inserted) = emplace (CanFrameIdentifier_id canFrameId) (Some device, fp)
                            (canFrameIdentifierToFunctionMap_m bus)
      in (inserted, bus\<lparr>canFrameIdentifierToFunctionMap_m := m\<rparr>))"

definition addCanMessage :: "CanFrameIdentifier \<Rightarrow> CallbackPtr \<Rightarrow> CanBus \<Rightarrow> bool \<times> CanBus" where
  "addCanMessage matcher fp bus =
     (let (m, inserted) = emplace matcher (None, fp) (canFrameIdentifierToFunctionMap_m bus)
      in (inserted, bus\<lparr>canFrameIdentifierToFunctionMap_m := m\<rparr>))"

definition addCanMessage_device ::
  "CanFrameIdentifier \<Rightarrow> nat \<Rightarrow> CallbackPtr \<Rightarrow> CanBus \<Rightarrow> bool \<times> CanBus" where
  "addCanMessage_device matcher device fp bus =
     (let (m, inserted) = emplace matcher (Some device, fp)
                            (canFrameIdentifierToFunctionMap_m bus)
      in (inserted, bus\<lparr>canFrameIdentifierToFunctionMap_m := m\<rparr>))"

text \<open>
  \<open>sendSync()\<close> and \<open>sendSyncWithoutLock()\<close> build \<open>CanMsg(0x80, 0, nullptr)\<close>
  and hand it to \<open>sendMessage\<close> and \<open>sendMessageWithoutLock\<close>.
\<close>

definition sendSync :: "CanBus \<Rightarrow> CanBus option" where
  "sendSync bus = Option.bind (CANMsg_ptr 0x80 0 []) (\<lambda>msg. sendMessage msg bus)"

definition sendSyncWithoutLock :: "CanBus \<Rightarrow> CanBus option" where
  "sendSyncWithoutLock bus =
     map_option (\<lambda>msg. sendMessageWithoutLock msg bus) (CANMsg_ptr 0x80 0 [])"

definition setUnmappedMessageCallback :: "CallbackPtr \<Rightarrow> CanBus \<Rightarrow> CanBus" where
  "setUnmappedMessageCallback callbackPtr bus =
     bus\<lparr>unmappedMessageCallbackFunction_m := Some callbackPtr\<rparr>"

section \<open>Concrete buses, drivers and frames\<close>

text \<open>
  Inputs at which the operations are evaluated below: an asynchronous bus
  named can0 with a queue cap of one frame and the thread priorities 10, 20
  and 30; a driver whose calls all succeed and one whose \<open>writeData\<close> fails;
  two frames; and another thread that drains the queue.
\<close>

definition can0_options :: BusOptions where
  "can0_options =
     \<lparr>name_m = ''can0'', asynchronous_m = True, startPassive_m = False,
      activateBusOnReception_m = False, maxQueueSize_m = 1, sanityCheckInterval_m = 100,
      priorityReceiveThread_m = 10, priorityTransmitThread_m = 20,
      prioritySanityCheckThread_m = 30\<rparr>"

definition good_driver :: "CanMsg driver" where
  "good_driver =
     \<lparr>initializeInterface = True, readData = True, writeData = (\<lambda>msg. True),
      pthread_setschedparam = (\<lambda>t prio. True)\<rparr>"

definition bad_driver :: "CanMsg driver" where
  "bad_driver =
     \<lparr>initializeInterface = True, readData = False, writeData = (\<lambda>msg. False),
      pthread_setschedparam = (\<lambda>t prio. True)\<rparr>"

definition frame_100 :: CanMsg where
  "frame_100 = CANMsg_COBId 0x100"

definition frame_101 :: CanMsg where
  "frame_101 = CANMsg_COBId 0x101"

definition can0 :: "CanMsg Bus" where
  "can0 = Bus_ctor can0_options"

text \<open>The bus after \<open>initBus\<close> in synchronous mode, one frame queued.\<close>

definition can0_one_queued :: "CanMsg Bus" where
  "can0_one_queued = can0\<lparr>running_m := True, outgoingMsgs_m := [frame_100]\<rparr>"


text \<open>A CAN bus with an empty dispatch map, and two callbacks.\<close>

definition canbus0 :: CanBus where
  "canbus0 =
     Bus.extend can0
       (CanBus.fields [] [] None)"

definition accept_frame :: CallbackPtr where
  "accept_frame msg = True"

definition reject_frame :: CallbackPtr where
  "reject_frame msg = False"

text \<open>A device with node id 1 and a timeout limit of 3, as constructed.\<close>

definition motor_limit_3 :: Device where
  "motor_limit_3 = Device_ctor ((DeviceOptions_ctor 1 ''motor'')\<lparr>maxDeviceTimeoutCounter := 3\<rparr>)"

text \<open>A frame that has been in use: flag set, eight octets of payload.\<close>

definition used_frame :: CANMsg where
  "used_frame = \<lparr>COBId_m = 0x201, flag_m = True, length_m = 8,
                  data_m = [1, 2, 3, 4, 5, 6, 7, 8]\<rparr>"

text \<open>The same bus, passive, after \<open>stopThreads\<close> cleared the running flag.\<close>

definition can0_stopped_passive :: "CanMsg Bus" where
  "can0_stopped_passive = can0_one_queued\<lparr>running_m := False, isPassive_m := True\<rparr>"

text \<open>The CAN bus after device 1 registered the matcher (0x181, 0x7ff).\<close>

definition canbus0_with_181 :: CanBus where
  "canbus0_with_181 =
     snd (addCanMessage_device (CanFrameIdentifier_ctor 0x181 0x7ff) 1 accept_frame canbus0)"

text \<open>A queue that holds one SYNC frame.\<close>

definition can0_sync_queued :: "CanMsg list" where
  "can0_sync_queued =
     [\<lparr>COBId_m = 0x80, flag_m = False, length_m = 0, data_m = [0, 0, 0, 0, 0, 0, 0, 0]\<rparr>]"

section \<open>Frames: write and read\<close>

subsection \<open>Octets of a word\<close>

lemma octet_ucast: "octet x = ucast x"
proof -
  have ff: "(0xFF :: 32 word) = mask 8"
    by (simp add: mask_eq_exp_minus_1)
  show ?thesis
    unfolding octet_def ff
    by (intro bit_word_eqI) (simp add: bit_simps)
qed

lemma ucast_signed_drop_bit:
  "n \<le> 24 \<Longrightarrow> (ucast (signed_drop_bit n (v :: 32 word)) :: 8 word) = ucast (drop_bit n v)"
  by (rule bit_word_eqI) (auto simp: bit_simps)

lemma ucast_shift_scast16:
  "n \<le> 8 \<Longrightarrow>
   (ucast (signed_drop_bit n (scast (v :: 16 word) :: 32 word)) :: 8 word) = ucast (drop_bit n v)"
  by (rule bit_word_eqI) (auto simp: bit_simps)

lemma ucast_shift_ucast16:
  "n \<le> 8 \<Longrightarrow>
   (ucast (signed_drop_bit n (ucast (v :: 16 word) :: 32 word)) :: 8 word) = ucast (drop_bit n v)"
  by (rule bit_word_eqI) (auto simp: bit_simps)

lemma ucast_scast16: "(ucast (scast (v :: 16 word) :: 32 word) :: 8 word) = ucast v"
  using ucast_shift_scast16 [of 0 v] by simp

lemma ucast_ucast16: "(ucast (ucast (v :: 16 word) :: 32 word) :: 8 word) = ucast v"
  using ucast_shift_ucast16 [of 0 v] by simp

subsection \<open>Reassembling a word from its octets\<close>

lemma cat32:
  "push_bit 24 (ucast (ucast (drop_bit 24 v) :: 8 word))
   OR push_bit 16 (ucast (ucast (drop_bit 16 v) :: 8 word))
   OR push_bit 8 (ucast (ucast (drop_bit 8 v) :: 8 word))
   OR ucast (ucast v :: 8 word) = (v :: 32 word)" (is "?l = v")
proof (rule bit_word_eqI)
  fix n :: nat
  assume "n < LENGTH(32)"
  then consider "n < 8" | "8 \<le> n" "n < 16" | "16 \<le> n" "n < 24" | "24 \<le> n" "n < 32"
    by fastforce
  then show "bit ?l n = bit v n"
    by cases (auto simp: bit_simps)
qed

lemma cat16s:
  "ucast (push_bit 8 (scast (ucast (ucast (drop_bit 8 v) :: 8 word) :: 16 word) :: 32 word)
          OR scast (ucast (ucast v :: 8 word) :: 16 word)) = (v :: 16 word)" (is "?l = v")
proof (rule bit_word_eqI)
  fix n :: nat
  assume "n < LENGTH(16)"
  then consider "n < 8" | "8 \<le> n" "n < 16"
    by fastforce
  then show "bit ?l n = bit v n"
    by cases (auto simp: bit_simps)
qed

lemma cat16u:
  "ucast (push_bit 8 (ucast (ucast (ucast (drop_bit 8 v) :: 8 word) :: 16 word) :: 32 word)
          OR ucast (ucast (ucast v :: 8 word) :: 16 word)) = (v :: 16 word)" (is "?l = v")
proof (rule bit_word_eqI)
  fix n :: nat
  assume "n < LENGTH(16)"
  then consider "n < 8" | "8 \<le> n" "n < 16"
    by fastforce
  then show "bit ?l n = bit v n"
    by cases (auto simp: bit_simps)
qed

subsection \<open>Stores into the array\<close>

lemma stored4:
  "p + 4 \<le> length xs \<Longrightarrow>
   take 4 (drop p (xs[3 + p := d, Suc (Suc p) := c, Suc p := b, p := a])) = [a, b, c, d]"
  by (auto simp: list_eq_iff_nth_eq nth_list_update less_Suc_eq numeral_eq_Suc)

lemma stored2:
  "p + 2 \<le> length xs \<Longrightarrow> take 2 (drop p (xs[Suc p := b, p := a])) = [a, b]"
  by (auto simp: list_eq_iff_nth_eq nth_list_update less_Suc_eq numeral_eq_Suc)

lemma stored1:
  "p < length xs \<Longrightarrow> take (Suc 0) (drop p (xs[p := a])) = [a]"
  by (auto simp: list_eq_iff_nth_eq nth_list_update)

lemma le_octets4: "le_octets 4 v = [ucast v, ucast (drop_bit 8 v), ucast (drop_bit 16 v), ucast (drop_bit 24 v)]"
  by (simp add: numeral_eq_Suc drop_bit_drop_bit)

subsection \<open>Each overload\<close>

lemma write_int32_read:
  "wf_CANMsg m \<Longrightarrow> unat pos + 4 \<le> 8 \<Longrightarrow>
   Option.bind (write_int32 v pos m) (readint32 pos) = Some v"
  by (simp add: write_int32_def readint32_def wf_CANMsg_def ucast_signed_drop_bit octet_ucast cat32)

lemma write_int32_layout:
  "wf_CANMsg m \<Longrightarrow> unat pos + 4 \<le> 8 \<Longrightarrow>
   map_option (octets_at (unat pos) 4) (write_int32 v pos m) = Some (le_octets 4 v)"
  by (simp add: write_int32_def octets_at_def wf_CANMsg_def ucast_signed_drop_bit octet_ucast stored4 le_octets4)


lemma le_octets2: "le_octets 2 v = [ucast v, ucast (drop_bit 8 v)]"
  by (simp add: numeral_eq_Suc)

lemma write_uint32_read:
  "wf_CANMsg m \<Longrightarrow> unat pos + 4 \<le> 8 \<Longrightarrow>
   Option.bind (write_uint32 v pos m) (readuint32 pos) = Some v"
  by (simp add: write_uint32_def readuint32_def wf_CANMsg_def octet_ucast cat32)

lemma write_uint32_layout:
  "wf_CANMsg m \<Longrightarrow> unat pos + 4 \<le> 8 \<Longrightarrow>
   map_option (octets_at (unat pos) 4) (write_uint32 v pos m) = Some (le_octets 4 v)"
  by (simp add: write_uint32_def octets_at_def wf_CANMsg_def octet_ucast stored4 le_octets4)

lemma write_int16_read:
  "wf_CANMsg m \<Longrightarrow> unat pos + 2 \<le> 8 \<Longrightarrow>
   Option.bind (write_int16 v pos m) (readint16 pos) = Some v"
  by (simp add: write_int16_def readint16_def wf_CANMsg_def octet_ucast
        ucast_shift_scast16 ucast_scast16 cat16s)

lemma write_int16_layout:
  "wf_CANMsg m \<Longrightarrow> unat pos + 2 \<le> 8 \<Longrightarrow>
   map_option (octets_at (unat pos) 2) (write_int16 v pos m) = Some (le_octets 2 v)"
  by (simp add: write_int16_def octets_at_def wf_CANMsg_def octet_ucast
        ucast_shift_scast16 ucast_scast16 stored2 le_octets2)

lemma write_uint16_read:
  "wf_CANMsg m \<Longrightarrow> unat pos + 2 \<le> 8 \<Longrightarrow>
   Option.bind (write_uint16 v pos m) (readuint16 pos) = Some v"
  by (simp add: write_uint16_def readuint16_def wf_CANMsg_def octet_ucast
        ucast_shift_ucast16 ucast_ucast16 cat16u)

lemma write_uint16_layout:
  "wf_CANMsg m \<Longrightarrow> unat pos + 2 \<le> 8 \<Longrightarrow>
   map_option (octets_at (unat pos) 2) (write_uint16 v pos m) = Some (le_octets 2 v)"
  by (simp add: write_uint16_def octets_at_def wf_CANMsg_def octet_ucast
        ucast_shift_ucast16 ucast_ucast16 stored2 le_octets2)

lemma write_int8_read:
  "wf_CANMsg m \<Longrightarrow> unat pos + 1 \<le> 8 \<Longrightarrow>
   Option.bind (write_int8 v pos m) (readint8 pos) = Some v"
  by (simp add: write_int8_def readint8_def wf_CANMsg_def)

lemma write_int8_layout:
  "wf_CANMsg m \<Longrightarrow> unat pos + 1 \<le> 8 \<Longrightarrow>
   map_option (octets_at (unat pos) 1) (write_int8 v pos m) = Some (le_octets 1 v)"
  by (simp add: write_int8_def octets_at_def wf_CANMsg_def stored1)

lemma write_uint8_read:
  "wf_CANMsg m \<Longrightarrow> unat pos + 1 \<le> 8 \<Longrightarrow>
   Option.bind (write_uint8 v pos m) (readuint8 pos) = Some v"
  by (simp add: write_uint8_def readuint8_def wf_CANMsg_def)

lemma write_uint8_layout:
  "wf_CANMsg m \<Longrightarrow> unat pos + 1 \<le> 8 \<Longrightarrow>
   map_option (octets_at (unat pos) 1) (write_uint8 v pos m) = Some (le_octets 1 v)"
  by (simp add: write_uint8_def octets_at_def wf_CANMsg_def stored1)


subsection \<open>Round trip\<close>

text \<open>
  Claim C6. For each width of 8, 16 and 32 bits, signed and unsigned, every
  value of that width and every offset \<open>pos\<close> with \<open>pos + width / 8 \<le> 8\<close>:
  the write succeeds, the matching read at \<open>pos\<close> of the written frame returns
  the value, and the octets of the frame from index \<open>pos\<close> on are the octets
  of the value from the least significant one up.
\<close>

theorem write_read_roundtrip:
  assumes "wf_CANMsg m"
  shows "(unat pos + 1 \<le> 8 \<longrightarrow>
            Option.bind (write_int8 s8 pos m) (readint8 pos) = Some s8 \<and>
            map_option (octets_at (unat pos) 1) (write_int8 s8 pos m) = Some (le_octets 1 s8) \<and>
            Option.bind (write_uint8 u8 pos m) (readuint8 pos) = Some u8 \<and>
            map_option (octets_at (unat pos) 1) (write_uint8 u8 pos m) = Some (le_octets 1 u8)) \<and>
         (unat pos + 2 \<le> 8 \<longrightarrow>
            Option.bind (write_int16 s16 pos m) (readint16 pos) = Some s16 \<and>
            map_option (octets_at (unat pos) 2) (write_int16 s16 pos m) = Some (le_octets 2 s16) \<and>
            Option.bind (write_uint16 u16 pos m) (readuint16 pos) = Some u16 \<and>
            map_option (octets_at (unat pos) 2) (write_uint16 u16 pos m) = Some (le_octets 2 u16)) \<and>
         (unat pos + 4 \<le> 8 \<longrightarrow>
            Option.bind (write_int32 s32 pos m) (readint32 pos) = Some s32 \<and>
            map_option (octets_at (unat pos) 4) (write_int32 s32 pos m) = Some (le_octets 4 s32) \<and>
            Option.bind (write_uint32 u32 pos m) (readuint32 pos) = Some u32 \<and>
            map_option (octets_at (unat pos) 4) (write_uint32 u32 pos m) = Some (le_octets 4 u32))"
proof (intro conjI impI)
  assume "unat pos + 1 \<le> 8"
  with assms show "Option.bind (write_int8 s8 pos m) (readint8 pos) = Some s8"
    by (rule write_int8_read)
  show "map_option (octets_at (unat pos) 1) (write_int8 s8 pos m) = Some (le_octets 1 s8)"
    using assms \<open>unat pos + 1 \<le> 8\<close> by (rule write_int8_layout)
  show "Option.bind (write_uint8 u8 pos m) (readuint8 pos) = Some u8"
    using assms \<open>unat pos + 1 \<le> 8\<close> by (rule write_uint8_read)
  show "map_option (octets_at (unat pos) 1) (write_uint8 u8 pos m) = Some (le_octets 1 u8)"
    using assms \<open>unat pos + 1 \<le> 8\<close> by (rule write_uint8_layout)
next
  assume b: "unat pos + 2 \<le> 8"
  show "Option.bind (write_int16 s16 pos m) (readint16 pos) = Some s16"
    using assms b by (rule write_int16_read)
  show "map_option (octets_at (unat pos) 2) (write_int16 s16 pos m) = Some (le_octets 2 s16)"
    using assms b by (rule write_int16_layout)
  show "Option.bind (write_uint16 u16 pos m) (readuint16 pos) = Some u16"
    using assms b by (rule write_uint16_read)
  show "map_option (octets_at (unat pos) 2) (write_uint16 u16 pos m) = Some (le_octets 2 u16)"
    using assms b by (rule write_uint16_layout)
next
  assume b: "unat pos + 4 \<le> 8"
  show "Option.bind (write_int32 s32 pos m) (readint32 pos) = Some s32"
    using assms b by (rule write_int32_read)
  show "map_option (octets_at (unat pos) 4) (write_int32 s32 pos m) = Some (le_octets 4 s32)"
    using assms b by (rule write_int32_layout)
  show "Option.bind (write_uint32 u32 pos m) (readuint32 pos) = Some u32"
    using assms b by (rule write_uint32_read)
  show "map_option (octets_at (unat pos) 4) (write_uint32 u32 pos m) = Some (le_octets 4 u32)"
    using assms b by (rule write_uint32_layout)
qed

theorem write_read_roundtrip_witness:
  "wf_CANMsg (CANMsg_COBId 0x201) \<and> unat (4 :: uint8_t) + 4 \<le> 8 \<and>
   Option.bind (write_int8 0xFE 4 (CANMsg_COBId 0x201)) (readint8 4) = Some 0xFE \<and>
   Option.bind (write_uint8 0xAB 4 (CANMsg_COBId 0x201)) (readuint8 4) = Some 0xAB \<and>
   Option.bind (write_int16 0xFFFE 4 (CANMsg_COBId 0x201)) (readint16 4) = Some 0xFFFE \<and>
   Option.bind (write_uint16 0xBEEF 4 (CANMsg_COBId 0x201)) (readuint16 4) = Some 0xBEEF \<and>
   Option.bind (write_int32 0xFFFFFFFE 4 (CANMsg_COBId 0x201)) (readint32 4) = Some 0xFFFFFFFE \<and>
   Option.bind (write_uint32 0xDEADBEEF 4 (CANMsg_COBId 0x201)) (readuint32 4) = Some 0xDEADBEEF \<and>
   map_option (octets_at 4 4) (write_uint32 0xDEADBEEF 4 (CANMsg_COBId 0x201))
     = Some (le_octets 4 (0xDEADBEEF :: uint32_t))"
proof -
  have wf: "wf_CANMsg (CANMsg_COBId 0x201)"
    by (simp add: wf_CANMsg_def CANMsg_COBId_def)
  have pos: "unat (4 :: uint8_t) = 4"
    by simp
  show ?thesis
    using wf pos
      write_read_roundtrip [OF wf, of 4 "0xFE" "0xAB" "0xFFFE" "0xBEEF" "0xFFFFFFFE" "0xDEADBEEF"]
    by simp
qed

section \<open>Frames: construction and \<open>setData\<close>\<close>

lemma std_copy_length: "length src \<le> length dst \<Longrightarrow> length (std_copy src dst) = length dst"
  by (simp add: std_copy_def)

lemma std_copy_take: "take (length src) (std_copy src dst) = src"
  by (simp add: std_copy_def)

lemma std_copy_drop: "drop (length src) (std_copy src dst) = drop (length src) dst"
  by (simp add: std_copy_def)

lemma zeros_drop: "n \<le> 8 \<Longrightarrow> drop n [0, 0, 0, 0, 0, 0, 0, 0 :: uint8_t] = replicate (8 - n) 0"
proof -
  have "[0, 0, 0, 0, 0, 0, 0, 0 :: uint8_t] = replicate 8 0"
    by (simp add: numeral_eq_Suc)
  then show ?thesis
    by simp
qed

text \<open>
  Claim C9. For a frame \<open>m\<close> and a call \<open>m.setData(L, d)\<close> with \<open>L \<le> 8\<close> (and
  \<open>d\<close> pointing to at least \<open>L\<close> octets): afterwards the length is \<open>L\<close>, the
  octets at indices 0 to \<open>L - 1\<close> are those of \<open>d\<close>, the octets at indices
  \<open>L\<close> to 7 are the ones the frame held before, and identifier and flag are
  unchanged. The constructors, in contrast, leave zero in every octet past
  the payload they are given.
\<close>

theorem setData_keeps_tail:
  assumes "wf_CANMsg m" and "unat L \<le> 8" and "unat L \<le> length d"
  shows "(\<exists>m'. setData L d m = Some m' \<and> wf_CANMsg m' \<and>
            length_m m' = L \<and>
            take (unat L) (data_m m') = take (unat L) d \<and>
            drop (unat L) (data_m m') = drop (unat L) (data_m m) \<and>
            COBId_m m' = COBId_m m \<and> flag_m m' = flag_m m) \<and>
         (\<exists>c. CANMsg_ptr COBId L d = Some c \<and> wf_CANMsg c \<and>
            length_m c = L \<and>
            take (unat L) (data_m c) = take (unat L) d \<and>
            drop (unat L) (data_m c) = replicate (8 - unat L) 0) \<and>
         (\<exists>c. CANMsg_list COBId L (take (unat L) d) = Some c \<and> wf_CANMsg c \<and>
            take (unat L) (data_m c) = take (unat L) d \<and>
            drop (unat L) (data_m c) = replicate (8 - unat L) 0) \<and>
         data_m (CANMsg_COBId COBId) = replicate 8 0"
proof -
  let ?src = "take (unat L) d"
  let ?zeros = "[0, 0, 0, 0, 0, 0, 0, 0 :: uint8_t]"
  have len: "length ?src = unat L"
    using assms(3) by simp
  have set: "\<exists>m'. setData L d m = Some m' \<and> wf_CANMsg m' \<and>
           length_m m' = L \<and>
           take (unat L) (data_m m') = take (unat L) d \<and>
           drop (unat L) (data_m m') = drop (unat L) (data_m m) \<and>
           COBId_m m' = COBId_m m \<and> flag_m m' = flag_m m"
    using assms std_copy_take [of ?src "data_m m"] std_copy_drop [of ?src "data_m m"]
      std_copy_length [of ?src "data_m m"]
    by (simp add: setData_def wf_CANMsg_def len)
  have ptr: "\<exists>c. CANMsg_ptr COBId L d = Some c \<and> wf_CANMsg c \<and>
           length_m c = L \<and>
           take (unat L) (data_m c) = take (unat L) d \<and>
           drop (unat L) (data_m c) = replicate (8 - unat L) 0"
    using assms std_copy_take [of ?src ?zeros] std_copy_drop [of ?src ?zeros]
      std_copy_length [of ?src ?zeros] zeros_drop [of "unat L"]
    by (simp add: CANMsg_ptr_def wf_CANMsg_def len)
  have lst: "\<exists>c. CANMsg_list COBId L ?src = Some c \<and> wf_CANMsg c \<and>
           take (unat L) (data_m c) = take (unat L) d \<and>
           drop (unat L) (data_m c) = replicate (8 - unat L) 0"
    using assms std_copy_take [of ?src ?zeros] std_copy_drop [of ?src ?zeros]
      std_copy_length [of ?src ?zeros] zeros_drop [of "unat L"]
    by (simp add: CANMsg_list_def wf_CANMsg_def len)
  have dflt: "data_m (CANMsg_COBId COBId) = replicate 8 0"
    by (simp add: CANMsg_COBId_def numeral_eq_Suc)
  from set ptr lst dflt show ?thesis
    by (intro conjI)
qed

theorem setData_keeps_tail_witness:
  "wf_CANMsg used_frame \<and> unat (2 :: uint8_t) \<le> 8 \<and>
   unat (2 :: uint8_t) \<le> length [0xAA, 0xBB :: uint8_t] \<and>
   map_option data_m (setData 2 [0xAA, 0xBB] used_frame)
     = Some [0xAA, 0xBB, 3, 4, 5, 6, 7, 8] \<and>
   map_option length_m (setData 2 [0xAA, 0xBB] used_frame) = Some 2 \<and>
   map_option COBId_m (setData 2 [0xAA, 0xBB] used_frame) = Some 0x201 \<and>
   map_option flag_m (setData 2 [0xAA, 0xBB] used_frame) = Some True \<and>
   map_option data_m (CANMsg_ptr 0x201 2 [0xAA, 0xBB]) = Some [0xAA, 0xBB, 0, 0, 0, 0, 0, 0]"
proof -
  have wf: "wf_CANMsg used_frame"
    by (simp add: wf_CANMsg_def used_frame_def)
  have l8: "unat (2 :: uint8_t) \<le> 8" and ld: "unat (2 :: uint8_t) \<le> length [0xAA, 0xBB :: uint8_t]"
    by simp_all
  show ?thesis
    using wf l8 ld setData_keeps_tail [where COBId = "0x201", OF wf l8 ld]
    by (simp add: setData_def CANMsg_ptr_def std_copy_def used_frame_def)
qed

section \<open>Devices\<close>

text \<open>
  What one check does: with a limit other than 0 the counter goes up by one
  (wrapping) and the result is false exactly when the counter the check found,
  before its own increment, is above the limit; with a limit of 0 the result
  is true and the device is left as it was.
\<close>

lemma checkDeviceTimeout_compares_old_counter:
  "(maxDeviceTimeoutCounter (options_d d) \<noteq> 0 \<longrightarrow>
      deviceTimeoutCounter_d (snd (sanityCheck d)) = deviceTimeoutCounter_d d + 1 \<and>
      options_d (snd (sanityCheck d)) = options_d d \<and>
      (fst (sanityCheck d) = False
         \<longleftrightarrow> deviceTimeoutCounter_d d > maxDeviceTimeoutCounter (options_d d))) \<and>
   (maxDeviceTimeoutCounter (options_d d) = 0 \<longrightarrow>
      fst (sanityCheck d) = True \<and> snd (sanityCheck d) = d)"
  by (simp add: sanityCheck_def checkDeviceTimeout_def Let_def)

text \<open>
  Claim C4 says that the default \<open>sanityCheck\<close> increments the timeout counter
  and returns false once the counter exceeds \<open>maxDeviceTimeoutCounter\<close>. On a
  device with a limit of 3 whose counter stands at 3, the check raises the
  counter to 4, above the limit, and returns true all the same: the
  post-increment compares the old value. Counted from a reset, the first
  four checks return true and only the fifth returns false, one check later
  than a counter that is compared after its increment.
\<close>

theorem sanityCheck_true_at_limit:
  "maxDeviceTimeoutCounter (options_d motor_limit_3) = 3 \<and>
   deviceTimeoutCounter_d motor_limit_3 = 0 \<and>
   sanityCheck (motor_limit_3\<lparr>deviceTimeoutCounter_d := 3\<rparr>)
     = (True, motor_limit_3\<lparr>deviceTimeoutCounter_d := 4\<rparr>) \<and>
   (4 :: 32 word) > maxDeviceTimeoutCounter (options_d motor_limit_3) \<and>
   fst (sanityChecks 4 motor_limit_3) = [True, True, True, True] \<and>
   deviceTimeoutCounter_d (snd (sanityChecks 4 motor_limit_3)) = 4 \<and>
   fst (sanityChecks 5 motor_limit_3) = [True, True, True, True, False]"
proof -
  have n4: "(4 :: nat) = Suc (Suc (Suc (Suc 0)))"
    and n5: "(5 :: nat) = Suc (Suc (Suc (Suc (Suc 0))))"
    by simp_all
  show ?thesis
    unfolding n4 n5
    by (simp add: sanityCheck_def checkDeviceTimeout_def motor_limit_3_def
          Device_ctor_def DeviceOptions_ctor_def Let_def)
qed

section \<open>The bus runtime\<close>

lemma effects_emit: "effects (emit e b) = effects b @ [e]"
  by (simp add: emit_def)

lemma new_effects_append: "effects b' = effects b @ es \<Longrightarrow> new_effects b b' = es"
  by (simp add: new_effects_def)

lemma sendMessageWithoutLock_queue:
  "outgoingMsgs_m (sendMessageWithoutLock msg b) = outgoingMsgs_m b @ [msg]"
  by (simp add: sendMessageWithoutLock_def checkOutgoingMsgsSize_def emit_def Let_def)

lemma sendMessageWithoutLock_mutex:
  "outgointMsgsMutex_m (sendMessageWithoutLock msg b) = outgointMsgsMutex_m b"
  by (simp add: sendMessageWithoutLock_def checkOutgoingMsgsSize_def emit_def Let_def)

lemma sendMessageWithoutLock_effects:
  "new_effects b (sendMessageWithoutLock msg b) =
     (if maxQueueSize_m (options_m b) \<le> length (outgoingMsgs_m b)
      then [Warn ''Exceeding max queue size on bus %s! Dropping message!'' (name_m (options_m b)),
            NotifyTransmit]
      else [NotifyTransmit])"
  by (simp add: sendMessageWithoutLock_def checkOutgoingMsgsSize_def emit_def Let_def
        new_effects_def)

text \<open>
  Claim C1 says that a frame sent while the queue holds \<open>maxQueueSize\<close> frames
  or more is logged and dropped. On a bus with a cap of one frame and one
  frame queued, \<open>sendMessage\<close> and \<open>emplaceMessage\<close> log the warning
  ``Dropping message!'' and then push the frame all the same: the queue holds
  two frames afterwards.
\<close>

theorem sendMessage_at_cap_pushes:
  "maxQueueSize_m (options_m can0_one_queued) = 1 \<and>
   outgoingMsgs_m can0_one_queued = [frame_100] \<and>
   map_option outgoingMsgs_m (sendMessage frame_101 can0_one_queued)
     = Some [frame_100, frame_101] \<and>
   map_option (new_effects can0_one_queued) (sendMessage frame_101 can0_one_queued)
     = Some [MutexLock,
             Warn ''Exceeding max queue size on bus %s! Dropping message!'' ''can0'',
             NotifyTransmit, MutexUnlock] \<and>
   map_option outgoingMsgs_m (emplaceMessage frame_101 can0_one_queued)
     = Some [frame_100, frame_101]"
  by (simp add: sendMessage_def emplaceMessage_def sendMessageWithoutLock_def
        emplaceMessageWithoutLock_def checkOutgoingMsgsSize_def mutex_lock_def
        mutex_unlock_def emit_def new_effects_def can0_one_queued_def can0_def
        Bus_ctor_def can0_options_def Let_def)

text \<open>
  Claim C2 says that \<open>initBus\<close> on an asynchronous bus applies each configured
  priority to its own thread. On the bus can0, with priorities 10, 20 and 30
  for the receive, transmit and sanity check threads, the three
  \<open>pthread_setschedparam\<close> calls all address the receive thread; the transmit
  and the sanity check thread are started and get no priority.
\<close>

theorem initBus_priorities_on_receive_thread:
  "fst (initBus good_driver can0) = True \<and>
   effects (snd (initBus good_driver can0))
     = [ThreadStart ReceiveThread, ThreadStart TransmitThread,
        SetSchedParam ReceiveThread SCHED_FIFO 10,
        SetSchedParam ReceiveThread SCHED_FIFO 20,
        ThreadStart SanityCheckThread,
        SetSchedParam ReceiveThread SCHED_FIFO 30]"
  by (simp add: initBus_def set_priority_def start_thread_def emit_def good_driver_def
        can0_def Bus_ctor_def can0_options_def Let_def)


subsection \<open>Transmitting the head of the queue\<close>

lemma tl_differs: "xs \<noteq> [] \<Longrightarrow> tl xs \<noteq> xs"
  by (cases xs) simp_all

lemma writeData_calls_single: "writeData_calls [WriteData m] = [m]"
  by simp

lemma wait_for_message_nonempty:
  "outgoingMsgs_m b \<noteq> [] \<Longrightarrow> wait_for_message others b = Some b"
  by (cases others) simp_all

lemma wait_for_message_stopped:
  "\<not> running_m b \<Longrightarrow> wait_for_message others b = Some b"
  by (cases others) simp_all

lemma writeMessage_nonempty:
  assumes "outgoingMsgs_m b \<noteq> []"
  shows "writeMessage drv b =
     (if isPassive_m b then (True, False, b\<lparr>outgoingMsgs_m := tl (outgoingMsgs_m b)\<rparr>)
      else if writeData drv (hd (outgoingMsgs_m b))
      then (True, False,
            (emit (WriteData (hd (outgoingMsgs_m b))) b)
              \<lparr>outgoingMsgs_m := tl (outgoingMsgs_m b)\<rparr>)
      else (False, True, emit (WriteData (hd (outgoingMsgs_m b))) b))"
  using assms
  by (simp add: writeMessage_def write_unless_passive_def emit_def)

lemma processOutputQueue_running:
  assumes "outgoingMsgs_m b \<noteq> []" and "\<not> outgointMsgsMutex_m b" and "running_m b"
  shows "processOutputQueue drv others b =
     (if isPassive_m b
      then Some (True, b\<lparr>outgoingMsgs_m := tl (outgoingMsgs_m b),
                         effects := effects b @ [MutexLock, MutexUnlock, MutexLock, MutexUnlock]\<rparr>)
      else if writeData drv (hd (outgoingMsgs_m b))
      then Some (True, b\<lparr>outgoingMsgs_m := tl (outgoingMsgs_m b),
                         effects := effects b @ [MutexLock, MutexUnlock,
                           WriteData (hd (outgoingMsgs_m b)), MutexLock, MutexUnlock]\<rparr>)
      else Some (False, b\<lparr>effects := effects b @ [MutexLock, MutexUnlock,
                           WriteData (hd (outgoingMsgs_m b))]\<rparr>))"
proof -
  let ?b1 = "b\<lparr>outgointMsgsMutex_m := True, effects := effects b @ [MutexLock]\<rparr>"
  have l: "mutex_lock b = Some ?b1"
    using assms(2) by (simp add: mutex_lock_def emit_def)
  have w: "wait_for_message others ?b1 = Some ?b1"
    using assms(1) by (intro wait_for_message_nonempty) simp
  show ?thesis
    unfolding processOutputQueue_def l
    using assms
    by (simp add: w write_unless_passive_def mutex_unlock_def mutex_lock_def emit_def)
qed

lemma processOutputQueue_stopped:
  assumes "\<not> outgointMsgsMutex_m b" and "\<not> running_m b"
  shows "processOutputQueue drv others b =
           Some (True, b\<lparr>effects := effects b @ [MutexLock, MutexUnlock]\<rparr>)"
proof -
  let ?b1 = "b\<lparr>outgointMsgsMutex_m := True, effects := effects b @ [MutexLock]\<rparr>"
  have l: "mutex_lock b = Some ?b1"
    using assms(1) by (simp add: mutex_lock_def emit_def)
  have w: "wait_for_message others ?b1 = Some ?b1"
    using assms(2) by (intro wait_for_message_stopped) simp
  show ?thesis
    unfolding processOutputQueue_def l
    using assms
    by (simp add: w mutex_unlock_def emit_def)
qed

text \<open>
  Claim C3, amended. On a queue that is not empty, in \<open>writeMessage\<close> and,
  while the running flag is set, in \<open>processOutputQueue\<close> (which returns when
  it can take the mutex): the head frame is popped iff the bus is passive or
  \<open>writeData\<close> returned true, and the call returns true in exactly that
  case; on a passive bus \<open>writeData\<close> is not called; on an active bus it is
  called once, with the head frame, and when it returns false the queue is
  left as it was. When the running flag is clear, \<open>processOutputQueue\<close>
  returns true without calling \<open>writeData\<close> and without popping.
\<close>

theorem head_popped_iff_written_or_passive:
  assumes "outgoingMsgs_m b \<noteq> []"
  shows
    "(\<exists>ret err b'. writeMessage drv b = (ret, err, b') \<and>
        (outgoingMsgs_m b' = tl (outgoingMsgs_m b)
           \<longleftrightarrow> isPassive_m b \<or> writeData drv (hd (outgoingMsgs_m b))) \<and>
        (ret \<longleftrightarrow> isPassive_m b \<or> writeData drv (hd (outgoingMsgs_m b))) \<and>
        (err \<longleftrightarrow> \<not> ret) \<and>
        (isPassive_m b \<longrightarrow> writeData_calls (new_effects b b') = []) \<and>
        (\<not> isPassive_m b \<longrightarrow>
           writeData_calls (new_effects b b') = [hd (outgoingMsgs_m b)]) \<and>
        (\<not> isPassive_m b \<and> \<not> writeData drv (hd (outgoingMsgs_m b)) \<longrightarrow>
           outgoingMsgs_m b' = outgoingMsgs_m b)) \<and>
     (\<not> outgointMsgsMutex_m b \<and> running_m b \<longrightarrow>
       (\<exists>ret b'. processOutputQueue drv others b = Some (ret, b') \<and>
        (outgoingMsgs_m b' = tl (outgoingMsgs_m b)
           \<longleftrightarrow> isPassive_m b \<or> writeData drv (hd (outgoingMsgs_m b))) \<and>
        (ret \<longleftrightarrow> isPassive_m b \<or> writeData drv (hd (outgoingMsgs_m b))) \<and>
        (isPassive_m b \<longrightarrow> writeData_calls (new_effects b b') = []) \<and>
        (\<not> isPassive_m b \<longrightarrow>
           writeData_calls (new_effects b b') = [hd (outgoingMsgs_m b)]) \<and>
        (\<not> isPassive_m b \<and> \<not> writeData drv (hd (outgoingMsgs_m b)) \<longrightarrow>
           outgoingMsgs_m b' = outgoingMsgs_m b))) \<and>
     (\<not> outgointMsgsMutex_m b \<and> \<not> running_m b \<longrightarrow>
       (\<exists>b'. processOutputQueue drv others b = Some (True, b') \<and>
        outgoingMsgs_m b' = outgoingMsgs_m b \<and>
        writeData_calls (new_effects b b') = []))"
proof (intro conjI impI)
  show "\<exists>ret err b'. writeMessage drv b = (ret, err, b') \<and>
        (outgoingMsgs_m b' = tl (outgoingMsgs_m b)
           \<longleftrightarrow> isPassive_m b \<or> writeData drv (hd (outgoingMsgs_m b))) \<and>
        (ret \<longleftrightarrow> isPassive_m b \<or> writeData drv (hd (outgoingMsgs_m b))) \<and>
        (err \<longleftrightarrow> \<not> ret) \<and>
        (isPassive_m b \<longrightarrow> writeData_calls (new_effects b b') = []) \<and>
        (\<not> isPassive_m b \<longrightarrow>
           writeData_calls (new_effects b b') = [hd (outgoingMsgs_m b)]) \<and>
        (\<not> isPassive_m b \<and> \<not> writeData drv (hd (outgoingMsgs_m b)) \<longrightarrow>
           outgoingMsgs_m b' = outgoingMsgs_m b)"
    using tl_differs [OF assms]
    by (auto simp: writeMessage_nonempty [OF assms] new_effects_def emit_def)
next
  assume "\<not> outgointMsgsMutex_m b \<and> running_m b"
  then have "\<not> outgointMsgsMutex_m b" and "running_m b"
    by simp_all
  note run = processOutputQueue_running [OF assms this]
  show "\<exists>ret b'. processOutputQueue drv others b = Some (ret, b') \<and>
        (outgoingMsgs_m b' = tl (outgoingMsgs_m b)
           \<longleftrightarrow> isPassive_m b \<or> writeData drv (hd (outgoingMsgs_m b))) \<and>
        (ret \<longleftrightarrow> isPassive_m b \<or> writeData drv (hd (outgoingMsgs_m b))) \<and>
        (isPassive_m b \<longrightarrow> writeData_calls (new_effects b b') = []) \<and>
        (\<not> isPassive_m b \<longrightarrow>
           writeData_calls (new_effects b b') = [hd (outgoingMsgs_m b)]) \<and>
        (\<not> isPassive_m b \<and> \<not> writeData drv (hd (outgoingMsgs_m b)) \<longrightarrow>
           outgoingMsgs_m b' = outgoingMsgs_m b)"
    using tl_differs [OF assms]
    by (auto simp: run new_effects_def)
next
  assume "\<not> outgointMsgsMutex_m b \<and> \<not> running_m b"
  then have "\<not> outgointMsgsMutex_m b" and "\<not> running_m b"
    by simp_all
  note stop = processOutputQueue_stopped [OF this]
  show "\<exists>b'. processOutputQueue drv others b = Some (True, b') \<and>
        outgoingMsgs_m b' = outgoingMsgs_m b \<and>
        writeData_calls (new_effects b b') = []"
    by (simp add: stop new_effects_def)
qed

lemmas fixture_defs =
  can0_one_queued_def can0_def Bus_ctor_def can0_options_def frame_100_def frame_101_def
  CANMsg_COBId_def good_driver_def bad_driver_def

text \<open>
  Claim C3 as stated fails on a bus that has been stopped: the bus is passive
  and its queue holds a frame, yet \<open>processOutputQueue\<close> returns true and the
  frame is still at the head.
\<close>

theorem stopped_passive_bus_keeps_head:
  "outgoingMsgs_m can0_stopped_passive = [frame_100] \<and>
   isPassive_m can0_stopped_passive \<and>
   map_option fst (processOutputQueue good_driver [] can0_stopped_passive) = Some True \<and>
   map_option (outgoingMsgs_m \<circ> snd) (processOutputQueue good_driver [] can0_stopped_passive)
     = Some [frame_100] \<and>
   map_option (outgoingMsgs_m \<circ> snd) (processOutputQueue good_driver [] can0_stopped_passive)
     \<noteq> Some (tl (outgoingMsgs_m can0_stopped_passive))"
  by (simp add: processOutputQueue_def mutex_lock_def mutex_unlock_def emit_def
        can0_stopped_passive_def fixture_defs)

theorem head_popped_iff_written_or_passive_witness:
  "outgoingMsgs_m can0_one_queued \<noteq> [] \<and>
   \<not> outgointMsgsMutex_m can0_one_queued \<and> running_m can0_one_queued \<and>
   \<not> isPassive_m can0_one_queued \<and>
   map_option (outgoingMsgs_m \<circ> snd) (processOutputQueue good_driver [] can0_one_queued)
     = Some [] \<and>
   map_option (outgoingMsgs_m \<circ> snd) (processOutputQueue bad_driver [] can0_one_queued)
     = Some [frame_100] \<and>
   map_option fst (processOutputQueue bad_driver [] can0_one_queued) = Some False \<and>
   map_option (outgoingMsgs_m \<circ> snd)
     (processOutputQueue bad_driver [] (passivate can0_one_queued)) = Some [] \<and>
   map_option (writeData_calls \<circ> effects \<circ> snd)
     (processOutputQueue bad_driver [] (passivate can0_one_queued)) = Some [] \<and>
   fst (writeMessage bad_driver (passivate can0_one_queued)) = True \<and>
   outgoingMsgs_m (snd (snd (writeMessage bad_driver can0_one_queued))) = [frame_100] \<and>
   outgoingMsgs_m (snd (snd (writeMessage good_driver can0_one_queued))) = []"
proof -
  have ne: "outgoingMsgs_m can0_one_queued \<noteq> []"
    and nep: "outgoingMsgs_m (passivate can0_one_queued) \<noteq> []"
    by (simp_all add: passivate_def fixture_defs)
  have st: "\<not> outgointMsgsMutex_m can0_one_queued" "running_m can0_one_queued"
    "\<not> isPassive_m can0_one_queued" "isPassive_m (passivate can0_one_queued)"
    "\<not> outgointMsgsMutex_m (passivate can0_one_queued)" "running_m (passivate can0_one_queued)"
    "hd (outgoingMsgs_m can0_one_queued) = frame_100"
    "tl (outgoingMsgs_m can0_one_queued) = []"
    "outgoingMsgs_m can0_one_queued = [frame_100]"
    "outgoingMsgs_m (passivate can0_one_queued) = [frame_100]"
    "effects (passivate can0_one_queued) = []"
    "writeData good_driver frame_100" "\<not> writeData bad_driver frame_100"
    by (simp_all add: passivate_def fixture_defs)
  show ?thesis
    using ne st
      head_popped_iff_written_or_passive [OF ne, of good_driver "[]"]
      head_popped_iff_written_or_passive [OF ne, of bad_driver "[]"]
      head_popped_iff_written_or_passive [OF nep, of bad_driver "[]"]
    by (auto simp: new_effects_def)
qed

subsection \<open>An empty queue\<close>

text \<open>
  Claim C10. Called while the queue is empty, \<open>writeMessage\<close> returns false,
  leaves false in \<open>writeError\<close>, and the bus, its queue included, is unchanged.
\<close>

theorem writeMessage_empty_queue:
  "outgoingMsgs_m b = [] \<Longrightarrow> writeMessage drv b = (False, False, b)"
  by (simp add: writeMessage_def)

theorem writeMessage_empty_queue_witness:
  "outgoingMsgs_m can0 = [] \<and> writeMessage bad_driver can0 = (False, False, can0)"
proof -
  have e: "outgoingMsgs_m can0 = []"
    by (simp add: can0_def Bus_ctor_def)
  from e writeMessage_empty_queue [OF e, of bad_driver] show ?thesis
    by simp
qed

subsection \<open>Waiting for the queue to drain\<close>





section \<open>CAN buses\<close>

subsection \<open>Registering a matcher\<close>

lemma contains_key_iff:
  "contains_key k m \<longleftrightarrow>
     (\<exists>e \<in> set m. identifier_m (fst e) = identifier_m k \<and> mask_m (fst e) = mask_m k)"
  by (simp add: contains_key_def list_ex_iff CanFrameIdentifier_eq_def)

lemma find_slot_absent: "\<not> contains_key k m \<Longrightarrow> find_slot k m = None"
  by (induction m) (simp_all add: contains_key_def)

lemma find_slot_appended:
  "\<not> contains_key k m \<Longrightarrow> find_slot k (m @ [(k, v)]) = Some v"
  by (induction m) (auto simp: contains_key_def CanFrameIdentifier_eq_def)

lemma contains_key_appended:
  "contains_key k (m @ [(k', v)]) \<longleftrightarrow> contains_key k m \<or> CanFrameIdentifier_eq k' k"
  by (simp add: contains_key_def)

lemma addCanMessage_device_present:
  "contains_key k (canFrameIdentifierToFunctionMap_m bus) \<Longrightarrow>
   addCanMessage_device k device fp bus = (False, bus)"
  by (simp add: addCanMessage_device_def emplace_def)

lemma addCanMessage_device_absent:
  "\<not> contains_key k (canFrameIdentifierToFunctionMap_m bus) \<Longrightarrow>
   addCanMessage_device k device fp bus =
     (True, bus\<lparr>canFrameIdentifierToFunctionMap_m :=
                   canFrameIdentifierToFunctionMap_m bus @ [(k, (Some device, fp))]\<rparr>)"
  by (simp add: addCanMessage_device_def emplace_def)

lemma addCanMessage_present:
  "contains_key k (canFrameIdentifierToFunctionMap_m bus) \<Longrightarrow>
   addCanMessage k fp bus = (False, bus)"
  by (simp add: addCanMessage_def emplace_def)

lemma addCanMessage_absent:
  "\<not> contains_key k (canFrameIdentifierToFunctionMap_m bus) \<Longrightarrow>
   addCanMessage k fp bus =
     (True, bus\<lparr>canFrameIdentifierToFunctionMap_m :=
                   canFrameIdentifierToFunctionMap_m bus @ [(k, (None, fp))]\<rparr>)"
  by (simp add: addCanMessage_def emplace_def)

text \<open>
  Claim C5. \<open>addCanMessage\<close> with a matcher: when an entry whose key has the
  same identifier and the same mask is registered, the call returns false and
  the bus, its dispatch map included, is unchanged; otherwise the entry is
  added, a lookup of the matcher finds it, and the call returns true. Two
  registrations of one identifier under different masks, neither registered
  before, both return true.
\<close>

theorem addCanMessage_refuses_equal_matcher:
  "((\<exists>e \<in> set (canFrameIdentifierToFunctionMap_m bus).
        identifier_m (fst e) = identifier_m matcher \<and> mask_m (fst e) = mask_m matcher) \<longrightarrow>
      addCanMessage_device matcher device fp bus = (False, bus) \<and>
      addCanMessage matcher fp bus = (False, bus)) \<and>
   (\<not> (\<exists>e \<in> set (canFrameIdentifierToFunctionMap_m bus).
        identifier_m (fst e) = identifier_m matcher \<and> mask_m (fst e) = mask_m matcher) \<longrightarrow>
      addCanMessage_device matcher device fp bus =
        (True, bus\<lparr>canFrameIdentifierToFunctionMap_m :=
                      canFrameIdentifierToFunctionMap_m bus @ [(matcher, (Some device, fp))]\<rparr>) \<and>
      find_slot matcher
        (canFrameIdentifierToFunctionMap_m (snd (addCanMessage_device matcher device fp bus)))
        = Some (Some device, fp) \<and>
      addCanMessage matcher fp bus =
        (True, bus\<lparr>canFrameIdentifierToFunctionMap_m :=
                      canFrameIdentifierToFunctionMap_m bus @ [(matcher, (None, fp))]\<rparr>) \<and>
      find_slot matcher
        (canFrameIdentifierToFunctionMap_m (snd (addCanMessage matcher fp bus)))
        = Some (None, fp)) \<and>
   (msk \<noteq> msk' \<and>
    \<not> contains_key (CanFrameIdentifier_ctor ident msk) (canFrameIdentifierToFunctionMap_m bus) \<and>
    \<not> contains_key (CanFrameIdentifier_ctor ident msk') (canFrameIdentifierToFunctionMap_m bus)
    \<longrightarrow>
      fst (addCanMessage_device (CanFrameIdentifier_ctor ident msk) device fp bus) \<and>
      fst (addCanMessage_device (CanFrameIdentifier_ctor ident msk') device' fp'
             (snd (addCanMessage_device (CanFrameIdentifier_ctor ident msk) device fp bus))))"
proof (intro conjI impI)
  assume "\<exists>e \<in> set (canFrameIdentifierToFunctionMap_m bus).
        identifier_m (fst e) = identifier_m matcher \<and> mask_m (fst e) = mask_m matcher"
  then have p: "contains_key matcher (canFrameIdentifierToFunctionMap_m bus)"
    by (simp add: contains_key_iff)
  from p show "addCanMessage_device matcher device fp bus = (False, bus)"
    by (rule addCanMessage_device_present)
  from p show "addCanMessage matcher fp bus = (False, bus)"
    by (rule addCanMessage_present)
next
  assume "\<not> (\<exists>e \<in> set (canFrameIdentifierToFunctionMap_m bus).
        identifier_m (fst e) = identifier_m matcher \<and> mask_m (fst e) = mask_m matcher)"
  then have a: "\<not> contains_key matcher (canFrameIdentifierToFunctionMap_m bus)"
    by (simp add: contains_key_iff)
  from a show d: "addCanMessage_device matcher device fp bus =
        (True, bus\<lparr>canFrameIdentifierToFunctionMap_m :=
                      canFrameIdentifierToFunctionMap_m bus @ [(matcher, (Some device, fp))]\<rparr>)"
    by (rule addCanMessage_device_absent)
  from a show n: "addCanMessage matcher fp bus =
        (True, bus\<lparr>canFrameIdentifierToFunctionMap_m :=
                      canFrameIdentifierToFunctionMap_m bus @ [(matcher, (None, fp))]\<rparr>)"
    by (rule addCanMessage_absent)
  show "find_slot matcher
        (canFrameIdentifierToFunctionMap_m (snd (addCanMessage_device matcher device fp bus)))
        = Some (Some device, fp)"
    using a by (simp add: d find_slot_appended)
  show "find_slot matcher
        (canFrameIdentifierToFunctionMap_m (snd (addCanMessage matcher fp bus)))
        = Some (None, fp)"
    using a by (simp add: n find_slot_appended)
next
  assume h: "msk \<noteq> msk' \<and>
    \<not> contains_key (CanFrameIdentifier_ctor ident msk) (canFrameIdentifierToFunctionMap_m bus) \<and>
    \<not> contains_key (CanFrameIdentifier_ctor ident msk') (canFrameIdentifierToFunctionMap_m bus)"
  then have first: "addCanMessage_device (CanFrameIdentifier_ctor ident msk) device fp bus =
        (True, bus\<lparr>canFrameIdentifierToFunctionMap_m :=
           canFrameIdentifierToFunctionMap_m bus
             @ [(CanFrameIdentifier_ctor ident msk, (Some device, fp))]\<rparr>)"
    by (intro addCanMessage_device_absent) simp
  show "fst (addCanMessage_device (CanFrameIdentifier_ctor ident msk) device fp bus)"
    by (simp add: first)
  have "\<not> contains_key (CanFrameIdentifier_ctor ident msk')
          (canFrameIdentifierToFunctionMap_m bus
             @ [(CanFrameIdentifier_ctor ident msk, (Some device, fp))])"
    using h
    by (simp add: contains_key_appended CanFrameIdentifier_eq_def CanFrameIdentifier_ctor_def)
  then show "fst (addCanMessage_device (CanFrameIdentifier_ctor ident msk') device' fp'
             (snd (addCanMessage_device (CanFrameIdentifier_ctor ident msk) device fp bus)))"
    by (simp add: first addCanMessage_device_absent)
qed

lemmas canbus_defs =
  canbus0_def Bus.extend_def CanBus.fields_def can0_def Bus_ctor_def can0_options_def

theorem addCanMessage_refuses_equal_matcher_witness:
  "canFrameIdentifierToFunctionMap_m canbus0 = [] \<and>
   addCanMessage_device (CanFrameIdentifier_ctor 0x181 0x7ff) 1 accept_frame canbus0
     = (True, canbus0_with_181) \<and>
   canFrameIdentifierToFunctionMap_m canbus0_with_181
     = [(CanFrameIdentifier_ctor 0x181 0x7ff, (Some 1, accept_frame))] \<and>
   addCanMessage_device (CanFrameIdentifier_ctor 0x181 0x7ff) 2 reject_frame canbus0_with_181
     = (False, canbus0_with_181) \<and>
   fst (addCanMessage_device (CanFrameIdentifier_ctor 0x181 0xfff) 2 reject_frame
          canbus0_with_181)"
proof -
  let ?k = "CanFrameIdentifier_ctor 0x181 0x7ff"
  note fresh = addCanMessage_refuses_equal_matcher
    [where bus = canbus0 and matcher = ?k and device = 1 and fp = accept_frame
       and ident = "0x181" and msk = "0x7ff" and msk' = "0xfff"
       and device' = 2 and fp' = reject_frame]
  note again = addCanMessage_refuses_equal_matcher
    [where bus = canbus0_with_181 and matcher = ?k and device = 2 and fp = reject_frame]
  have e: "canFrameIdentifierToFunctionMap_m canbus0 = []"
    by (simp add: canbus_defs)
  have "addCanMessage_device ?k 1 accept_frame canbus0 =
          (True, canbus0\<lparr>canFrameIdentifierToFunctionMap_m :=
             canFrameIdentifierToFunctionMap_m canbus0 @ [(?k, (Some 1, accept_frame))]\<rparr>)"
    using fresh e by simp
  then have first: "addCanMessage_device ?k 1 accept_frame canbus0 = (True, canbus0_with_181)"
    and m: "canFrameIdentifierToFunctionMap_m canbus0_with_181 = [(?k, (Some 1, accept_frame))]"
    by (simp_all add: canbus0_with_181_def e)
  have second:
    "addCanMessage_device ?k 2 reject_frame canbus0_with_181 = (False, canbus0_with_181)"
    using again m by simp
  have "fst (addCanMessage_device (CanFrameIdentifier_ctor 0x181 0xfff) 2 reject_frame
               (snd (addCanMessage_device ?k 1 accept_frame canbus0)))"
    using fresh e by (auto simp: contains_key_def)
  then have other:
    "fst (addCanMessage_device (CanFrameIdentifier_ctor 0x181 0xfff) 2 reject_frame
            canbus0_with_181)"
    by (simp add: canbus0_with_181_def)
  from e first m second other show ?thesis
    by simp
qed

subsection \<open>SYNC\<close>

lemma sync_frame:
  "CANMsg_ptr 0x80 0 [] =
     Some \<lparr>COBId_m = 0x80, flag_m = False, length_m = 0, data_m = [0, 0, 0, 0, 0, 0, 0, 0]\<rparr>"
  by (simp add: CANMsg_ptr_def std_copy_def)

text \<open>
  Claim C8. \<open>sendSync\<close> (which returns when it can take the mutex) appends
  exactly one frame to the queue: identifier 0x80, length 0, all eight data
  octets zero; it takes the mutex and gives it back. \<open>sendSyncWithoutLock\<close>
  appends the same frame and neither takes nor changes the mutex.
\<close>

theorem sendSync_enqueues_sync_frame:
  "(\<not> outgointMsgsMutex_m bus \<longrightarrow>
      (\<exists>bus'. sendSync bus = Some bus' \<and>
         outgoingMsgs_m bus' = outgoingMsgs_m bus
           @ [\<lparr>COBId_m = 0x80, flag_m = False, length_m = 0,
                data_m = [0, 0, 0, 0, 0, 0, 0, 0]\<rparr>] \<and>
         MutexLock \<in> set (new_effects bus bus') \<and>
         outgointMsgsMutex_m bus' = outgointMsgsMutex_m bus)) \<and>
   (\<exists>bus'. sendSyncWithoutLock bus = Some bus' \<and>
      outgoingMsgs_m bus' = outgoingMsgs_m bus
        @ [\<lparr>COBId_m = 0x80, flag_m = False, length_m = 0,
             data_m = [0, 0, 0, 0, 0, 0, 0, 0]\<rparr>] \<and>
      MutexLock \<notin> set (new_effects bus bus') \<and>
      outgointMsgsMutex_m bus' = outgointMsgsMutex_m bus)"
proof (intro conjI impI)
  assume "\<not> outgointMsgsMutex_m bus"
  then show "\<exists>bus'. sendSync bus = Some bus' \<and>
         outgoingMsgs_m bus' = outgoingMsgs_m bus
           @ [\<lparr>COBId_m = 0x80, flag_m = False, length_m = 0,
                data_m = [0, 0, 0, 0, 0, 0, 0, 0]\<rparr>] \<and>
         MutexLock \<in> set (new_effects bus bus') \<and>
         outgointMsgsMutex_m bus' = outgointMsgsMutex_m bus"
    by (simp add: sendSync_def sync_frame sendMessage_def mutex_lock_def mutex_unlock_def
          sendMessageWithoutLock_def checkOutgoingMsgsSize_def emit_def new_effects_def Let_def)
next
  show "\<exists>bus'. sendSyncWithoutLock bus = Some bus' \<and>
      outgoingMsgs_m bus' = outgoingMsgs_m bus
        @ [\<lparr>COBId_m = 0x80, flag_m = False, length_m = 0,
             data_m = [0, 0, 0, 0, 0, 0, 0, 0]\<rparr>] \<and>
      MutexLock \<notin> set (new_effects bus bus') \<and>
      outgointMsgsMutex_m bus' = outgointMsgsMutex_m bus"
    by (simp add: sendSyncWithoutLock_def sync_frame sendMessageWithoutLock_queue
          sendMessageWithoutLock_mutex sendMessageWithoutLock_effects)
qed

theorem sendSync_enqueues_sync_frame_witness:
  "\<not> outgointMsgsMutex_m canbus0 \<and> outgoingMsgs_m canbus0 = [] \<and>
   map_option outgoingMsgs_m (sendSync canbus0) = Some can0_sync_queued \<and>
   map_option outgoingMsgs_m (sendSyncWithoutLock canbus0) = Some can0_sync_queued \<and>
   map_option effects (sendSync canbus0) = Some [MutexLock, NotifyTransmit, MutexUnlock] \<and>
   map_option effects (sendSyncWithoutLock canbus0) = Some [NotifyTransmit]"
proof -
  have free: "\<not> outgointMsgsMutex_m canbus0" and q: "outgoingMsgs_m canbus0 = []"
    and ef: "effects canbus0 = []"
    by (simp_all add: canbus_defs)
  have cap: "\<not> maxQueueSize_m (options_m canbus0) \<le> length (outgoingMsgs_m canbus0)"
    by (simp add: canbus_defs)
  show ?thesis
    using free q ef cap sendSync_enqueues_sync_frame [of canbus0]
    by (auto simp: can0_sync_queued_def sendSync_def sendSyncWithoutLock_def sync_frame
          sendMessage_def mutex_lock_def mutex_unlock_def sendMessageWithoutLock_def
          checkOutgoingMsgsSize_def emit_def Let_def)
qed

end
